theory Spec2Isabelle
  imports Complex_Main "HOL-Library.Sublist"
begin

section \<open>Text primitives of the enrichment engine\<close>

text \<open>
  Strings are byte strings (\<^typ>\<open>string\<close>); the model covers ASCII text, on which
  Python's \<^verbatim>\<open>str.lower\<close>, \<^verbatim>\<open>str.capitalize\<close>, \<^verbatim>\<open>str.title\<close> and
  \<^verbatim>\<open>str.split\<close> act as defined here. An optional string (\<^verbatim>\<open>Optional[str]\<close>) is a
  \<^typ>\<open>string option\<close>; its Python truth value is \<open>truthy\<close>.
\<close>

definition lower_char :: "char \<Rightarrow> char" where
  "lower_char c =
     (let n = (of_char c :: nat) in if 65 \<le> n \<and> n \<le> 90 then char_of (n + 32) else c)"

definition upper_char :: "char \<Rightarrow> char" where
  "upper_char c =
     (let n = (of_char c :: nat) in if 97 \<le> n \<and> n \<le> 122 then char_of (n - 32) else c)"

definition is_alpha :: "char \<Rightarrow> bool" where
  "is_alpha c =
     (let n = (of_char c :: nat) in (65 \<le> n \<and> n \<le> 90) \<or> (97 \<le> n \<and> n \<le> 122))"

text \<open>The ASCII characters that \<^verbatim>\<open>str.split()\<close> treats as whitespace:
  tab, line feed, vertical tab, form feed, carriage return, the four separators
  \<^verbatim>\<open>\x1c\<close> to \<^verbatim>\<open>\x1f\<close>, and the space.\<close>

definition is_space :: "char \<Rightarrow> bool" where
  "is_space c =
     (let n = (of_char c :: nat) in (9 \<le> n \<and> n \<le> 13) \<or> (28 \<le> n \<and> n \<le> 32))"

definition lower :: "string \<Rightarrow> string" where
  "lower s = map lower_char s"

text \<open>\<^verbatim>\<open>s.capitalize()\<close>: first character upper-cased, the rest lower-cased.\<close>

fun capitalize :: "string \<Rightarrow> string" where
  "capitalize [] = []"
| "capitalize (c # cs) = upper_char c # map lower_char cs"

text \<open>\<^verbatim>\<open>s.title()\<close>: a letter that follows a letter is lower-cased, any other
  letter is upper-cased. The flag says whether the previous character was a letter.\<close>

fun title_from :: "bool \<Rightarrow> string \<Rightarrow> string" where
  "title_from prev [] = []"
| "title_from prev (c # cs) =
     (if is_alpha c then (if prev then lower_char c else upper_char c) # title_from True cs
      else c # title_from False cs)"

definition title :: "string \<Rightarrow> string" where
  "title s = title_from False s"

text \<open>\<^verbatim>\<open>s.split()\<close>: the maximal runs of non-whitespace characters, in order.
  \<open>cur\<close> is the current run, reversed.\<close>

fun split_acc :: "string \<Rightarrow> string \<Rightarrow> string list" where
  "split_acc cur [] = (if cur = [] then [] else [rev cur])"
| "split_acc cur (c # cs) =
     (if is_space c then (if cur = [] then split_acc [] cs else rev cur # split_acc [] cs)
      else split_acc (c # cur) cs)"

definition split :: "string \<Rightarrow> string list" where
  "split s = split_acc [] s"

text \<open>\<^verbatim>\<open>pattern in text\<close> on strings: contiguous substring.\<close>

fun starts_with :: "string \<Rightarrow> string \<Rightarrow> bool" where
  "starts_with [] s = True"
| "starts_with (p # ps) [] = False"
| "starts_with (p # ps) (c # cs) = (p = c \<and> starts_with ps cs)"

fun contains :: "string \<Rightarrow> string \<Rightarrow> bool" where
  "contains p [] = (p = [])"
| "contains p (c # cs) = (starts_with p (c # cs) \<or> contains p cs)"

definition truthy :: "string option \<Rightarrow> bool" where
  "truthy v = (case v of None \<Rightarrow> False | Some s \<Rightarrow> s \<noteq> [])"

text \<open>\<^verbatim>\<open>v or ''\<close> for an optional string.\<close>

definition or_empty :: "string option \<Rightarrow> string" where
  "or_empty v = (case v of None \<Rightarrow> [] | Some s \<Rightarrow> s)"

section \<open>Data model\<close>

text \<open>
  Timestamps are points of a linear order (\<^typ>\<open>int\<close>). Decimal amounts are exact
  rationals: the amounts the engine handles stay within the precision at which
  Python's \<^verbatim>\<open>Decimal\<close> arithmetic is exact, and \<^verbatim>\<open>Decimal(str(d))\<close> is the identity
  on a decimal \<open>d\<close>. Fields follow \<^verbatim>\<open>schemas.py\<close>; the prefixes \<open>tx_\<close>, \<open>rw_\<close>,
  \<open>us_\<close>, \<open>up_\<close> and \<open>pd_\<close> keep the field names of the different classes apart.
\<close>

record transaction =
  tx_customer_id :: int
  tx_account_id :: int
  tx_posted_at :: int
  tx_transaction_at :: "int option"
  tx_description :: string
  tx_memo :: "string option"
  tx_value_amount_usd :: rat
  tx_merchant_normalized :: "string option"
  tx_category :: "string option"
  tx_location_inferred :: "string option"
  tx_matched_reward_id :: "int option"
  tx_reward_applied :: bool
  tx_reward_savings_amount :: "rat option"
  tx_notification_triggered :: bool

record reward =
  rw_id :: int
  rw_merchant_name :: string
  rw_reward_type :: string
  rw_category :: "string option"
  rw_start_date :: int
  rw_end_date :: "int option"
  rw_max_savings_amount :: "rat option"
  rw_geo_scope :: string
  rw_geo_city :: "string option"
  rw_geo_country :: "string option"
  rw_is_auto_applicable :: bool
  rw_requires_user_opt_in :: bool
  rw_percentage_value :: "rat option"
  rw_fixed_amount_value :: "rat option"

record user =
  us_id :: int
  us_customer_id :: int
  us_primary_geo_location :: "string option"

record user_preference =
  up_notifications_enabled :: bool
  up_priceless_geo_location :: "string option"
  up_priceless_notifications_enabled :: bool
  up_auto_apply_rewards_enabled :: bool

section \<open>Enrichment engine (\<^verbatim>\<open>TransactionEnrichmentService\<close>)\<close>

text \<open>The pattern tables, in declaration order (a Python dict iterates in insertion order).\<close>

definition MERCHANT_PATTERNS :: "(string \<times> string) list" where
  "MERCHANT_PATTERNS =
     [(''starbucks'', ''Starbucks''),
      (''sbux'', ''Starbucks''),
      (''coffee'', ''Coffee Shop''),
      (''mcdonald'', ''McDonald'' @ [CHR 0x27] @ ''s''),
      (''mcd'', ''McDonald'' @ [CHR 0x27] @ ''s''),
      (''uber'', ''Uber''),
      (''lyft'', ''Lyft''),
      (''amazon'', ''Amazon''),
      (''whole foods'', ''Whole Foods''),
      (''target'', ''Target''),
      (''walmart'', ''Walmart''),
      (''restaurant'', ''Restaurant''),
      (''dining'', ''Restaurant''),
      (''hotel'', ''Hotel''),
      (''airline'', ''Airline''),
      (''gas'', ''Gas Station''),
      (''shell'', ''Shell''),
      (''exxon'', ''Exxon''),
      (''grocery'', ''Grocery Store'')]"

definition CATEGORY_PATTERNS :: "(string \<times> string list) list" where
  "CATEGORY_PATTERNS =
     [(''dining'', [''restaurant'', ''cafe'', ''coffee'', ''starbucks'', ''mcdonald'', ''dining'',
                   ''food'', ''pizza'', ''burger'']),
      (''travel'', [''hotel'', ''airline'', ''uber'', ''lyft'', ''taxi'', ''airport'', ''travel'',
                   ''booking'']),
      (''groceries'', [''grocery'', ''whole foods'', ''safeway'', ''kroger'', ''walmart'', ''target'',
                      ''supermarket'']),
      (''entertainment'', [''movie'', ''theater'', ''cinema'', ''netflix'', ''spotify'',
                          ''entertainment'', ''concert'']),
      (''shopping'', [''amazon'', ''retail'', ''store'', ''shopping'', ''mall'']),
      (''gas'', [''gas'', ''shell'', ''exxon'', ''chevron'', ''bp'', ''fuel'']),
      (''utilities'', [''electric'', ''water'', ''gas bill'', ''utility'', ''internet'', ''phone''])]"

definition cities :: "string list" where
  "cities = [''new york'', ''nyc'', ''san francisco'', ''sf'', ''los angeles'', ''la'',
             ''chicago'', ''boston'', ''miami'']"

text \<open>The \<^verbatim>\<open>for pattern, normalized in ...items()\<close> loop of \<^verbatim>\<open>normalize_merchant\<close>:
  the value of the first entry whose key occurs in the text.\<close>

fun scan_merchants :: "(string \<times> string) list \<Rightarrow> string \<Rightarrow> string option" where
  "scan_merchants [] combined = None"
| "scan_merchants ((pattern, normalized) # rest) combined =
     (if contains pattern combined then Some normalized else scan_merchants rest combined)"

definition normalize_merchant :: "string \<Rightarrow> string option \<Rightarrow> string option" where
  "normalize_merchant description memo =
     (let combined = lower (description @ '' '' @ or_empty memo) in
      case scan_merchants MERCHANT_PATTERNS combined of
        Some normalized \<Rightarrow> Some normalized
      | None \<Rightarrow>
          (case split combined of
             [] \<Rightarrow> None
           | w # ws \<Rightarrow> Some (capitalize w)))"

fun scan_categories :: "(string \<times> string list) list \<Rightarrow> string \<Rightarrow> string option" where
  "scan_categories [] combined = None"
| "scan_categories ((category, patterns) # rest) combined =
     (if list_ex (\<lambda>pattern. contains pattern combined) patterns then Some category
      else scan_categories rest combined)"

definition infer_category :: "string \<Rightarrow> string option \<Rightarrow> string option \<Rightarrow> string option" where
  "infer_category description memo merchant =
     (let combined = lower (description @ '' '' @ or_empty memo @ '' '' @ or_empty merchant) in
      scan_categories CATEGORY_PATTERNS combined)"

fun scan_cities :: "string list \<Rightarrow> string \<Rightarrow> string option" where
  "scan_cities [] combined = None"
| "scan_cities (city # rest) combined =
     (if contains city combined then Some (title city) else scan_cities rest combined)"

definition infer_location :: "string \<Rightarrow> string option \<Rightarrow> string option" where
  "infer_location description memo =
     (let combined = lower (description @ '' '' @ or_empty memo) in
      scan_cities cities combined)"

text \<open>\<^verbatim>\<open>enrich_transaction\<close> mutates the transaction it is given and returns it;
  the model returns the updated record. Each field is tested for truth, in the
  source's order, and the category is inferred from the merchant just stored.\<close>

definition enrich_transaction :: "transaction \<Rightarrow> transaction" where
  "enrich_transaction t =
     (let t1 = (if \<not> truthy (tx_merchant_normalized t)
                then t\<lparr>tx_merchant_normalized :=
                         normalize_merchant (tx_description t) (tx_memo t)\<rparr>
                else t);
          t2 = (if \<not> truthy (tx_category t1)
                then t1\<lparr>tx_category :=
                          infer_category (tx_description t1) (tx_memo t1)
                            (tx_merchant_normalized t1)\<rparr>
                else t1);
          t3 = (if \<not> truthy (tx_location_inferred t2)
                then t2\<lparr>tx_location_inferred :=
                          infer_location (tx_description t2) (tx_memo t2)\<rparr>
                else t2)
      in t3)"

section \<open>Reward catalog queries\<close>

text \<open>
  The catalog is the list of \<^verbatim>\<open>Reward\<close> rows in the order the database returns
  them; a query is the list of rows it selects, and \<^verbatim>\<open>query.filter(c)\<close> keeps the
  rows on which the SQL criterion \<open>c\<close> is true. The criteria of this module are
  built from comparisons with \<^verbatim>\<open>OR\<close> only, so a comparison with \<^verbatim>\<open>NULL\<close>
  (unknown in SQL) selects exactly as a false one does.

  \<^verbatim>\<open>column.ilike(p)\<close> is SQL pattern matching on lower-cased text: in the pattern,
  \<^verbatim>\<open>%\<close> stands for any run of characters and \<^verbatim>\<open>_\<close> for any one character
  (no escape character).
\<close>

fun like_match :: "string \<Rightarrow> string \<Rightarrow> bool" where
  "like_match [] s = (s = [])"
| "like_match (p # ps) [] = (p = CHR ''%'' \<and> like_match ps [])"
| "like_match (p # ps) (c # cs) =
     (if p = CHR ''%'' then like_match ps (c # cs) \<or> like_match (p # ps) cs
      else (p = CHR ''_'' \<or> p = c) \<and> like_match ps cs)"

definition ilike :: "string option \<Rightarrow> string \<Rightarrow> bool" where
  "ilike column pattern =
     (case column of None \<Rightarrow> False | Some s \<Rightarrow> like_match (lower pattern) (lower s))"

text \<open>Lines 151 to 162: the start-date filter, then the end-date filter, which is
  added only when the transaction carries a timestamp. A comparison of
  \<^verbatim>\<open>start_date\<close> with an absent timestamp selects no row.\<close>

definition temporal_query :: "transaction \<Rightarrow> reward list \<Rightarrow> reward list" where
  "temporal_query transaction db =
     (case tx_transaction_at transaction of
        None \<Rightarrow> []
      | Some transaction_at \<Rightarrow>
          filter (\<lambda>r. case rw_end_date r of None \<Rightarrow> True | Some e \<Rightarrow> e \<ge> transaction_at)
            (filter (\<lambda>r. rw_start_date r \<le> transaction_at) db))"

text \<open>Lines 165 to 176. \<open>merchant_match\<close> and \<open>category_match\<close> are \<^verbatim>\<open>False\<close>
  or a SQL criterion; the test \<^verbatim>\<open>if merchant_match or category_match\<close> is read
  as: at least one of the two criteria has been built. (The object-relational mapper is
  not part of the repository; a criterion object is taken to count as true.)\<close>

definition merchant_match :: "transaction \<Rightarrow> reward \<Rightarrow> bool" where
  "merchant_match transaction r =
     (case tx_merchant_normalized transaction of
        None \<Rightarrow> False
      | Some m \<Rightarrow> m \<noteq> [] \<and> ilike (Some (rw_merchant_name r)) (''%'' @ m @ ''%''))"

definition category_match :: "transaction \<Rightarrow> reward \<Rightarrow> bool" where
  "category_match transaction r =
     (case tx_category transaction of
        None \<Rightarrow> False
      | Some c \<Rightarrow> c \<noteq> [] \<and> rw_category r = Some c)"

definition has_criterion :: "transaction \<Rightarrow> bool" where
  "has_criterion transaction =
     (truthy (tx_merchant_normalized transaction) \<or> truthy (tx_category transaction))"

definition relevance_query :: "transaction \<Rightarrow> reward list \<Rightarrow> reward list" where
  "relevance_query transaction query =
     filter (\<lambda>r. merchant_match transaction r \<or> category_match transaction r) query"

text \<open>Lines 179 to 183: the preference's location if it is set, else the user's.\<close>

definition resolve_user_geo :: "user \<Rightarrow> user_preference option \<Rightarrow> string option" where
  "resolve_user_geo user user_preferences =
     (case user_preferences of
        Some p \<Rightarrow>
          if truthy (up_priceless_geo_location p) then up_priceless_geo_location p
          else if truthy (us_primary_geo_location user) then us_primary_geo_location user
          else None
      | None \<Rightarrow>
          if truthy (us_primary_geo_location user) then us_primary_geo_location user
          else None)"

text \<open>Lines 185 to 192: the geo filter is added only when a location is known.\<close>

definition geo_query :: "string option \<Rightarrow> reward list \<Rightarrow> reward list" where
  "geo_query user_geo query =
     (case user_geo of
        None \<Rightarrow> query
      | Some g \<Rightarrow>
          filter (\<lambda>r. rw_geo_scope r = ''global''
                       \<or> ilike (rw_geo_city r) (''%'' @ g @ ''%'')
                       \<or> ilike (rw_geo_country r) (''%'' @ g @ ''%'')) query)"

text \<open>Line 194, \<^verbatim>\<open>matching_rewards = query.all()\<close>, for an enriched transaction
  that has a criterion.\<close>

definition query_all ::
  "transaction \<Rightarrow> user \<Rightarrow> user_preference option \<Rightarrow> reward list \<Rightarrow> reward list" where
  "query_all transaction user user_preferences db =
     geo_query (resolve_user_geo user user_preferences)
       (relevance_query transaction (temporal_query transaction db))"

text \<open>The candidate sequence: what the filters of lines 147 to 194 leave of the
  catalog for the transaction once it is enriched, empty when it has no criterion.\<close>

definition candidates ::
  "transaction \<Rightarrow> user \<Rightarrow> user_preference option \<Rightarrow> reward list \<Rightarrow> reward list" where
  "candidates transaction0 user user_preferences db =
     (let transaction = enrich_transaction transaction0 in
      if has_criterion transaction then query_all transaction user user_preferences db else [])"




section \<open>Savings calculator\<close>

text \<open>\<^verbatim>\<open>calculate_reward_savings\<close>: a decimal is true when it is present and not
  zero. \<open>other\<close> is the \<^verbatim>\<open>elif\<close> branch followed by the final \<^verbatim>\<open>return\<close>.\<close>

definition calculate_reward_savings :: "transaction \<Rightarrow> reward \<Rightarrow> rat" where
  "calculate_reward_savings transaction reward =
     (let transaction_amount = \<bar>tx_value_amount_usd transaction\<bar>;
          other = (case rw_fixed_amount_value reward of
                     Some f \<Rightarrow> if rw_reward_type reward = ''fixed_amount'' \<and> f \<noteq> 0 then f else 0
                   | None \<Rightarrow> 0)
      in case rw_percentage_value reward of
           Some p \<Rightarrow>
             if rw_reward_type reward = ''percentage_cashback'' \<and> p \<noteq> 0 then
               (let savings = transaction_amount * (p / 100) in
                case rw_max_savings_amount reward of
                  Some m \<Rightarrow> if m \<noteq> 0 then min savings m else savings
                | None \<Rightarrow> savings)
             else other
         | None \<Rightarrow> other)"

section \<open>Applying a match (\<^verbatim>\<open>seed_data.create_sample_transactions\<close>)\<close>

text \<open>Lines 263 to 272: a new transaction; the fields the constructor is not given
  have the defaults of \<^verbatim>\<open>schemas.TransactionResponse\<close>.\<close>

definition new_transaction ::
  "int \<Rightarrow> int \<Rightarrow> int \<Rightarrow> int \<Rightarrow> string \<Rightarrow> string option \<Rightarrow> rat \<Rightarrow> transaction" where
  "new_transaction customer_id account_id posted_at transaction_at description memo amount =
     \<lparr>tx_customer_id = customer_id, tx_account_id = account_id, tx_posted_at = posted_at,
      tx_transaction_at = Some transaction_at, tx_description = description, tx_memo = memo,
      tx_value_amount_usd = amount, tx_merchant_normalized = None, tx_category = None,
      tx_location_inferred = None, tx_matched_reward_id = None, tx_reward_applied = False,
      tx_reward_savings_amount = None, tx_notification_triggered = False\<rparr>"


section \<open>Notification decision (\<^verbatim>\<open>AiInsightsService.should_send_notification\<close>)\<close>

text \<open>The preferences are a dict here; \<open>None\<close> in a toggle is a missing key, for
  which \<^verbatim>\<open>.get(key, True)\<close> gives \<^verbatim>\<open>True\<close>. \<open>now\<close> is the reading of the clock.\<close>

record preferences_dict =
  pd_priceless_notifications_enabled :: "bool option"
  pd_notifications_enabled :: "bool option"
  pd_priceless_geo_location :: "string option"

definition get_or_true :: "bool option \<Rightarrow> bool" where
  "get_or_true v = (case v of None \<Rightarrow> True | Some b \<Rightarrow> b)"

definition should_send_notification ::
  "int \<Rightarrow> user \<Rightarrow> preferences_dict \<Rightarrow> reward \<Rightarrow> bool" where
  "should_send_notification now user user_preferences experience =
     (if \<not> get_or_true (pd_priceless_notifications_enabled user_preferences) then False
      else if \<not> get_or_true (pd_notifications_enabled user_preferences) then False
      else
        (let user_geo = (if truthy (pd_priceless_geo_location user_preferences)
                         then pd_priceless_geo_location user_preferences
                         else us_primary_geo_location user)
         in if rw_geo_scope experience \<noteq> ''global''
               \<and> (\<not> truthy user_geo
                    \<or> (truthy (rw_geo_city experience)
                        \<and> \<not> contains (lower (or_empty user_geo))
                              (lower (or_empty (rw_geo_city experience)))))
            then False
            else if rw_start_date experience > now
                    \<or> (case rw_end_date experience of None \<Rightarrow> False | Some e \<Rightarrow> e < now)
            then False
            else True))"

section \<open>Sample data\<close>


definition ex_user_ny :: user where
  "ex_user_ny =
     \<lparr>us_id = 2, us_customer_id = 1002, us_primary_geo_location = Some ''New York, NY''\<rparr>"


definition ex_prefs_dict :: preferences_dict where
  "ex_prefs_dict =
     \<lparr>pd_priceless_notifications_enabled = Some True, pd_notifications_enabled = None,
      pd_priceless_geo_location = Some ''New York''\<rparr>"

definition ex_starbucks :: reward where
  "ex_starbucks =
     \<lparr>rw_id = 1, rw_merchant_name = ''Starbucks'', rw_reward_type = ''percentage_cashback'',
      rw_category = Some ''dining'', rw_start_date = 0, rw_end_date = Some 90,
      rw_max_savings_amount = Some 50, rw_geo_scope = ''global'', rw_geo_city = None,
      rw_geo_country = None, rw_is_auto_applicable = True, rw_requires_user_opt_in = False,
      rw_percentage_value = Some 5, rw_fixed_amount_value = None\<rparr>"



definition ex_starbucks_no_percentage :: reward where
  "ex_starbucks_no_percentage = ex_starbucks\<lparr>rw_percentage_value := None\<rparr>"

definition ex_fixed :: reward where
  "ex_fixed =
     ex_starbucks\<lparr>rw_id := 9, rw_reward_type := ''fixed_amount'', rw_percentage_value := None,
       rw_fixed_amount_value := Some 100\<rparr>"

definition ex_fixed_zero :: reward where
  "ex_fixed_zero = ex_fixed\<lparr>rw_fixed_amount_value := Some 0\<rparr>"

definition ex_wine :: reward where
  "ex_wine =
     \<lparr>rw_id = 5, rw_merchant_name = ''Exclusive Wine Tasting'', rw_reward_type = ''experience'',
      rw_category = Some ''entertainment'', rw_start_date = 25, rw_end_date = Some 60,
      rw_max_savings_amount = None, rw_geo_scope = ''city'',
      rw_geo_city = Some ''San Francisco'', rw_geo_country = None,
      rw_is_auto_applicable = False, rw_requires_user_opt_in = True,
      rw_percentage_value = None, rw_fixed_amount_value = Some 150\<rparr>"

definition ex_wine_no_city :: reward where
  "ex_wine_no_city = ex_wine\<lparr>rw_geo_city := None\<rparr>"

definition ex_tx :: transaction where
  "ex_tx = new_transaction 1001 2001 30 30 ''STARBUCKS STORE #12345''
             (Some ''Purchase at Starbucks Coffee'') (- 2000)"

definition ex_tx_movie :: transaction where
  "ex_tx_movie = new_transaction 1001 2001 30 30 ''MOVIE THEATER'' (Some ''Cinema tickets'') (- 24)"


definition ex_tx_enriched :: transaction where
  "ex_tx_enriched =
     ex_tx\<lparr>tx_merchant_normalized := Some ''Cafe'', tx_category := Some ''breakfast'',
       tx_location_inferred := Some ''Oakland''\<rparr>"

section \<open>Properties of the text primitives\<close>

text \<open>\<open>contains\<close> is the contiguous-sublist relation of the library.\<close>

lemma starts_with_prefix: "starts_with p s = prefix p s"
  by (induction p s rule: starts_with.induct) simp_all

lemma contains_sublist: "contains p s = sublist p s"
  by (induction s) (simp_all add: starts_with_prefix sublist_Cons_right)

text \<open>A pattern \<^verbatim>\<open>%g%\<close> in which \<open>g\<close> has no wildcard selects the texts that
  contain \<open>g\<close>, case-insensitively.\<close>

lemma like_match_any: "like_match ''%'' s"
  by (induction s) simp_all

lemma like_match_literal_prefix:
  "CHR ''%'' \<notin> set q \<Longrightarrow> CHR ''_'' \<notin> set q \<Longrightarrow> like_match (q @ ''%'') s = starts_with q s"
proof (induction q arbitrary: s)
  case Nil
  then show ?case by (simp add: like_match_any)
next
  case (Cons p ps)
  then show ?case by (cases s) auto
qed

lemma like_match_literal_infix:
  assumes "CHR ''%'' \<notin> set q" and "CHR ''_'' \<notin> set q"
  shows "like_match (''%'' @ q @ ''%'') s = contains q s"
proof (induction s)
  case Nil
  then show ?case using like_match_literal_prefix[OF assms, of "[]"] by (cases q) auto
next
  case (Cons c cs)
  then show ?case using like_match_literal_prefix[OF assms, of "c # cs"] by simp
qed

lemma of_char_lower_char:
  "(of_char (lower_char c) :: nat) =
     (if 65 \<le> (of_char c :: nat) \<and> (of_char c :: nat) \<le> 90 then of_char c + 32 else of_char c)"
  by (simp add: lower_char_def Let_def)

lemma lower_char_eq_percent: "lower_char c = CHR ''%'' \<longleftrightarrow> c = CHR ''%''"
proof -
  have "lower_char c = CHR ''%'' \<longleftrightarrow> (of_char (lower_char c) :: nat) = of_char CHR ''%''"
    by (metis of_char_eq_iff)
  also have "\<dots> \<longleftrightarrow> (of_char c :: nat) = of_char CHR ''%''"
    by (simp add: of_char_lower_char)
  also have "\<dots> \<longleftrightarrow> c = CHR ''%''"
    by (metis of_char_eq_iff)
  finally show ?thesis .
qed

lemma lower_char_eq_underscore: "lower_char c = CHR ''_'' \<longleftrightarrow> c = CHR ''_''"
proof -
  have "lower_char c = CHR ''_'' \<longleftrightarrow> (of_char (lower_char c) :: nat) = of_char CHR ''_''"
    by (metis of_char_eq_iff)
  also have "\<dots> \<longleftrightarrow> (of_char c :: nat) = of_char CHR ''_''"
    by (simp add: of_char_lower_char)
  also have "\<dots> \<longleftrightarrow> c = CHR ''_''"
    by (metis of_char_eq_iff)
  finally show ?thesis .
qed

lemma ilike_contains:
  assumes "CHR ''%'' \<notin> set g" and "CHR ''_'' \<notin> set g"
  shows "ilike column (''%'' @ g @ ''%'') =
           (case column of None \<Rightarrow> False | Some s \<Rightarrow> contains (lower g) (lower s))"
proof -
  have "CHR ''%'' \<notin> set (lower g)" and "CHR ''_'' \<notin> set (lower g)"
  proof -
    show "CHR ''%'' \<notin> set (lower g)"
    proof
      assume "CHR ''%'' \<in> set (lower g)"
      then obtain x where "x \<in> set g" and "lower_char x = CHR ''%''"
        by (auto simp: lower_def)
      then show False using assms(1) by (simp add: lower_char_eq_percent)
    qed
    show "CHR ''_'' \<notin> set (lower g)"
    proof
      assume "CHR ''_'' \<in> set (lower g)"
      then obtain x where "x \<in> set g" and "lower_char x = CHR ''_''"
        by (auto simp: lower_def)
      then show False using assms(2) by (simp add: lower_char_eq_underscore)
    qed
  qed
  then have "like_match (''%'' @ lower g @ ''%'') s = contains (lower g) s" for s
    by (rule like_match_literal_infix)
  moreover have "lower (''%'' @ g @ ''%'') = ''%'' @ lower g @ ''%''"
    by (simp add: lower_def lower_char_eq_percent)
  ultimately show ?thesis
    by (simp add: ilike_def split: option.splits)
qed





section \<open>Properties of the enrichment engine\<close>




lemma enrich_merchant:
  "tx_merchant_normalized (enrich_transaction t) =
     (if truthy (tx_merchant_normalized t) then tx_merchant_normalized t
      else normalize_merchant (tx_description t) (tx_memo t))"
  by (simp add: enrich_transaction_def Let_def)

lemma enrich_category:
  "tx_category (enrich_transaction t) =
     (if truthy (tx_category t) then tx_category t
      else infer_category (tx_description t) (tx_memo t)
             (tx_merchant_normalized (enrich_transaction t)))"
  by (simp add: enrich_transaction_def Let_def)

lemma enrich_location:
  "tx_location_inferred (enrich_transaction t) =
     (if truthy (tx_location_inferred t) then tx_location_inferred t
      else infer_location (tx_description t) (tx_memo t))"
  by (simp add: enrich_transaction_def Let_def)

lemma enrich_unfold:
  "enrich_transaction t =
     t\<lparr>tx_merchant_normalized := tx_merchant_normalized (enrich_transaction t),
       tx_category := tx_category (enrich_transaction t),
       tx_location_inferred := tx_location_inferred (enrich_transaction t)\<rparr>"
  by (simp add: enrich_transaction_def Let_def)

lemma enrich_identity_fields:
  "tx_description (enrich_transaction t) = tx_description t"
  "tx_memo (enrich_transaction t) = tx_memo t"
  "tx_transaction_at (enrich_transaction t) = tx_transaction_at t"
  "tx_value_amount_usd (enrich_transaction t) = tx_value_amount_usd t"
  "tx_customer_id (enrich_transaction t) = tx_customer_id t"
  "tx_account_id (enrich_transaction t) = tx_account_id t"
  "tx_posted_at (enrich_transaction t) = tx_posted_at t"
  "tx_matched_reward_id (enrich_transaction t) = tx_matched_reward_id t"
  "tx_reward_applied (enrich_transaction t) = tx_reward_applied t"
  "tx_reward_savings_amount (enrich_transaction t) = tx_reward_savings_amount t"
  "tx_notification_triggered (enrich_transaction t) = tx_notification_triggered t"
  by (simp_all add: enrich_transaction_def Let_def)

lemma enrich_twice: "enrich_transaction (enrich_transaction t) = enrich_transaction t"
proof -
  let ?e = "enrich_transaction t"
  have m: "tx_merchant_normalized (enrich_transaction ?e) = tx_merchant_normalized ?e"
    by (simp add: enrich_merchant[of ?e] enrich_identity_fields) (simp add: enrich_merchant)
  have c: "tx_category (enrich_transaction ?e) = tx_category ?e"
    by (simp add: enrich_category[of ?e] enrich_identity_fields m) (simp add: enrich_category)
  have l: "tx_location_inferred (enrich_transaction ?e) = tx_location_inferred ?e"
    by (simp add: enrich_location[of ?e] enrich_identity_fields) (simp add: enrich_location)
  have "enrich_transaction ?e =
          ?e\<lparr>tx_merchant_normalized := tx_merchant_normalized ?e,
             tx_category := tx_category ?e,
             tx_location_inferred := tx_location_inferred ?e\<rparr>"
    using enrich_unfold[of ?e] by (simp only: m c l)
  then show ?thesis by simp
qed

section \<open>Properties of the matching engine\<close>








lemma subseq_candidates: "subseq (candidates t user prefs db) db"
proof -
  have g: "subseq (geo_query g q) q" for g q
    by (simp add: geo_query_def split: option.splits)
  have r: "subseq (relevance_query t' q) q" for t' q
    by (simp add: relevance_query_def)
  have "subseq (temporal_query t' db) db" for t'
    unfolding temporal_query_def
    by (auto split: option.splits intro: subseq_order.trans[OF subseq_filter_left subseq_filter_left])
  then show ?thesis
    unfolding candidates_def query_all_def Let_def
    by (auto intro: subseq_order.trans[OF g] subseq_order.trans[OF r])
qed



section \<open>The savings calculator\<close>

text \<open>C1, as the code has it. For every reward whose \<^verbatim>\<open>reward_type\<close> is not
  \<^verbatim>\<open>fixed_amount\<close> and whose \<^verbatim>\<open>max_savings_amount\<close> is set to a positive value, and
  for every transaction amount, \<^verbatim>\<open>calculate_reward_savings\<close> returns a value that does
  not exceed \<^verbatim>\<open>max_savings_amount\<close>.\<close>

theorem savings_capped:
  assumes "rw_max_savings_amount reward = Some m" and "0 < m"
    and "rw_reward_type reward \<noteq> ''fixed_amount''"
  shows "calculate_reward_savings transaction reward \<le> m"
  using assms by (auto simp: calculate_reward_savings_def Let_def split: option.splits)

theorem savings_capped_witness:
  "rw_max_savings_amount ex_starbucks = Some 50
   \<and> rw_reward_type ex_starbucks \<noteq> ''fixed_amount''
   \<and> calculate_reward_savings ex_tx ex_starbucks \<le> 50"
proof -
  have m: "rw_max_savings_amount ex_starbucks = Some 50"
    and ty: "rw_reward_type ex_starbucks \<noteq> ''fixed_amount''"
    by (simp_all add: ex_starbucks_def)
  have pos: "(0::rat) < 50" by simp
  from savings_capped[OF m pos ty, of ex_tx] m ty show ?thesis by simp
qed

text \<open>A fixed-amount reward of 100 with a cap of 50 yields 100: the cap is read in the
  percentage branch only.\<close>

theorem savings_capped_counterexample:
  "rw_max_savings_amount ex_fixed = Some 50 \<and> \<not> calculate_reward_savings ex_tx ex_fixed \<le> 50"
  by code_simp

text \<open>C4, as the code has it. For every reward missing its type-required numeric field
  (\<^verbatim>\<open>percentage_cashback\<close> without \<^verbatim>\<open>percentage_value\<close>, \<^verbatim>\<open>fixed_amount\<close> without
  \<^verbatim>\<open>fixed_amount_value\<close>) the savings calculation returns the decimal zero, the very
  value it returns for a valid fixed-amount reward of zero dollars: the result carries no
  separate indeterminate outcome.\<close>

theorem missing_value_gives_zero:
  assumes "(rw_reward_type reward = ''percentage_cashback'' \<and> rw_percentage_value reward = None)
           \<or> (rw_reward_type reward = ''fixed_amount'' \<and> rw_fixed_amount_value reward = None)"
    and "rw_reward_type zero_reward = ''fixed_amount''"
    and "rw_fixed_amount_value zero_reward = Some 0"
  shows "calculate_reward_savings transaction reward = 0
         \<and> calculate_reward_savings transaction zero_reward = 0"
  using assms by (auto simp: calculate_reward_savings_def Let_def split: option.splits)

theorem missing_value_gives_zero_witness:
  "rw_reward_type ex_starbucks_no_percentage = ''percentage_cashback''
   \<and> rw_percentage_value ex_starbucks_no_percentage = None
   \<and> calculate_reward_savings ex_tx ex_starbucks_no_percentage = 0
   \<and> calculate_reward_savings ex_tx ex_fixed_zero = 0"
proof -
  have a: "(rw_reward_type ex_starbucks_no_percentage = ''percentage_cashback''
              \<and> rw_percentage_value ex_starbucks_no_percentage = None)
           \<or> (rw_reward_type ex_starbucks_no_percentage = ''fixed_amount''
                \<and> rw_fixed_amount_value ex_starbucks_no_percentage = None)"
    by (simp add: ex_starbucks_no_percentage_def ex_starbucks_def)
  have b: "rw_reward_type ex_fixed_zero = ''fixed_amount''"
    and c: "rw_fixed_amount_value ex_fixed_zero = Some 0"
    by (simp_all add: ex_fixed_zero_def ex_fixed_def)
  have d: "rw_reward_type ex_starbucks_no_percentage = ''percentage_cashback''
           \<and> rw_percentage_value ex_starbucks_no_percentage = None"
    by (simp add: ex_starbucks_no_percentage_def ex_starbucks_def)
  from missing_value_gives_zero[OF a b c, of ex_tx] d show ?thesis by simp
qed

text \<open>A percentage reward without its percentage and a fixed-amount reward of zero give
  the same result.\<close>

theorem missing_value_counterexample:
  "rw_reward_type ex_starbucks_no_percentage = ''percentage_cashback''
   \<and> rw_percentage_value ex_starbucks_no_percentage = None
   \<and> rw_reward_type ex_fixed_zero = ''fixed_amount''
   \<and> rw_fixed_amount_value ex_fixed_zero = Some 0
   \<and> calculate_reward_savings ex_tx ex_starbucks_no_percentage
       = calculate_reward_savings ex_tx ex_fixed_zero"
  by code_simp




text \<open>C9. For every transaction and every reward that is neither a \<^verbatim>\<open>percentage_cashback\<close>
  reward with a present, non-zero \<^verbatim>\<open>percentage_value\<close> nor a \<^verbatim>\<open>fixed_amount\<close> reward
  with a present, non-zero \<^verbatim>\<open>fixed_amount_value\<close>, and so for every \<^verbatim>\<open>experience\<close>
  reward, \<^verbatim>\<open>calculate_reward_savings\<close> returns the decimal zero.\<close>

theorem savings_zero_without_value:
  "(\<not> (rw_reward_type reward = ''percentage_cashback''
         \<and> (\<exists>p. rw_percentage_value reward = Some p \<and> p \<noteq> 0))
     \<and> \<not> (rw_reward_type reward = ''fixed_amount''
            \<and> (\<exists>f. rw_fixed_amount_value reward = Some f \<and> f \<noteq> 0))
     \<longrightarrow> calculate_reward_savings transaction reward = 0)
   \<and> (rw_reward_type reward = ''experience''
        \<longrightarrow> calculate_reward_savings transaction reward = 0)"
proof -
  have fall_through: "calculate_reward_savings transaction reward = 0"
    if pct: "\<not> (rw_reward_type reward = ''percentage_cashback''
                 \<and> (\<exists>p. rw_percentage_value reward = Some p \<and> p \<noteq> 0))"
      and fixed: "\<not> (rw_reward_type reward = ''fixed_amount''
                     \<and> (\<exists>f. rw_fixed_amount_value reward = Some f \<and> f \<noteq> 0))"
  proof -
    have other: "(case rw_fixed_amount_value reward of
                    Some f \<Rightarrow> if rw_reward_type reward = ''fixed_amount'' \<and> f \<noteq> 0 then f else 0
                  | None \<Rightarrow> 0) = 0"
      using fixed by (cases "rw_fixed_amount_value reward") auto
    show ?thesis
    proof (cases "rw_percentage_value reward")
      case None
      then show ?thesis by (simp add: calculate_reward_savings_def other)
    next
      case (Some p)
      with pct have "\<not> (rw_reward_type reward = ''percentage_cashback'' \<and> p \<noteq> 0)"
        by simp
      with Some show ?thesis by (auto simp: calculate_reward_savings_def other Let_def)
    qed
  qed
  have "calculate_reward_savings transaction reward = 0"
    if "rw_reward_type reward = ''experience''"
    using that by (intro fall_through) simp_all
  with fall_through show ?thesis by blast
qed

theorem savings_zero_without_value_witness:
  "rw_reward_type ex_wine = ''experience''
   \<and> rw_fixed_amount_value ex_wine = Some 150
   \<and> calculate_reward_savings ex_tx_movie ex_wine = 0"
proof -
  have ty: "rw_reward_type ex_wine = ''experience''"
    and f: "rw_fixed_amount_value ex_wine = Some 150"
    by (simp_all add: ex_wine_def)
  from savings_zero_without_value[of ex_wine ex_tx_movie] ty f show ?thesis by simp
qed

section \<open>The catalog filter and the selection\<close>








section \<open>Enrichment\<close>




text \<open>C8. Enriching twice gives the same transaction as enriching once, and a derived
  field (\<^verbatim>\<open>merchant_normalized\<close>, \<^verbatim>\<open>category\<close>, \<^verbatim>\<open>location_inferred\<close>) that holds a
  non-empty value before enrichment keeps it.\<close>

theorem enrich_transaction_idempotent_write_once:
  "enrich_transaction (enrich_transaction t) = enrich_transaction t
   \<and> (truthy (tx_merchant_normalized t) \<longrightarrow>
        tx_merchant_normalized (enrich_transaction t) = tx_merchant_normalized t)
   \<and> (truthy (tx_category t) \<longrightarrow> tx_category (enrich_transaction t) = tx_category t)
   \<and> (truthy (tx_location_inferred t) \<longrightarrow>
        tx_location_inferred (enrich_transaction t) = tx_location_inferred t)"
proof (intro conjI impI)
  show "enrich_transaction (enrich_transaction t) = enrich_transaction t"
    by (rule enrich_twice)
next
  assume "truthy (tx_merchant_normalized t)"
  then show "tx_merchant_normalized (enrich_transaction t) = tx_merchant_normalized t"
    by (simp add: enrich_merchant)
next
  assume "truthy (tx_category t)"
  then show "tx_category (enrich_transaction t) = tx_category t"
    by (simp add: enrich_category)
next
  assume "truthy (tx_location_inferred t)"
  then show "tx_location_inferred (enrich_transaction t) = tx_location_inferred t"
    by (simp add: enrich_location)
qed

theorem enrich_transaction_witness:
  "truthy (tx_merchant_normalized ex_tx_enriched)
   \<and> truthy (tx_category ex_tx_enriched)
   \<and> truthy (tx_location_inferred ex_tx_enriched)
   \<and> enrich_transaction (enrich_transaction ex_tx_enriched) = enrich_transaction ex_tx_enriched
   \<and> tx_merchant_normalized (enrich_transaction ex_tx_enriched) = Some ''Cafe''
   \<and> tx_category (enrich_transaction ex_tx_enriched) = Some ''breakfast''
   \<and> tx_location_inferred (enrich_transaction ex_tx_enriched) = Some ''Oakland''"
proof -
  have m: "tx_merchant_normalized ex_tx_enriched = Some ''Cafe''"
    and c: "tx_category ex_tx_enriched = Some ''breakfast''"
    and l: "tx_location_inferred ex_tx_enriched = Some ''Oakland''"
    by (simp_all add: ex_tx_enriched_def)
  have t: "truthy (tx_merchant_normalized ex_tx_enriched)"
    "truthy (tx_category ex_tx_enriched)" "truthy (tx_location_inferred ex_tx_enriched)"
    by (simp_all add: m c l truthy_def)
  from enrich_transaction_idempotent_write_once[of ex_tx_enriched] t m c l
  show ?thesis by simp
qed

section \<open>The notification decision\<close>

text \<open>C10. For a reward whose \<^verbatim>\<open>geo_scope\<close> is not \<^verbatim>\<open>global\<close> and whose \<^verbatim>\<open>geo_city\<close>
  is absent: if both notification toggles are enabled, the user's geo is known and \<open>now\<close>
  lies within the reward's validity window, \<^verbatim>\<open>should_send_notification\<close> returns true.\<close>

theorem notification_without_city_check:
  assumes "rw_geo_scope experience \<noteq> ''global''"
    and "rw_geo_city experience = None"
    and "get_or_true (pd_priceless_notifications_enabled user_preferences)"
    and "get_or_true (pd_notifications_enabled user_preferences)"
    and "truthy (pd_priceless_geo_location user_preferences)
         \<or> truthy (us_primary_geo_location user)"
    and "rw_start_date experience \<le> now"
    and "\<forall>e. rw_end_date experience = Some e \<longrightarrow> now \<le> e"
  shows "should_send_notification now user user_preferences experience"
  using assms
  by (auto simp: should_send_notification_def Let_def truthy_def split: option.splits)

theorem notification_without_city_check_witness:
  "rw_geo_scope ex_wine_no_city = ''city''
   \<and> rw_geo_city ex_wine_no_city = None
   \<and> should_send_notification 30 ex_user_ny ex_prefs_dict ex_wine_no_city"
proof -
  have sc: "rw_geo_scope ex_wine_no_city = ''city''"
    and ci: "rw_geo_city ex_wine_no_city = None"
    and st: "rw_start_date ex_wine_no_city \<le> 30"
    and en: "\<forall>e. rw_end_date ex_wine_no_city = Some e \<longrightarrow> 30 \<le> e"
    by (simp_all add: ex_wine_no_city_def ex_wine_def)
  have ng: "rw_geo_scope ex_wine_no_city \<noteq> ''global''"
    by (simp add: sc)
  have p1: "get_or_true (pd_priceless_notifications_enabled ex_prefs_dict)"
    and p2: "get_or_true (pd_notifications_enabled ex_prefs_dict)"
    and ug: "truthy (pd_priceless_geo_location ex_prefs_dict)
             \<or> truthy (us_primary_geo_location ex_user_ny)"
    by (simp_all add: ex_prefs_dict_def get_or_true_def truthy_def)
  from notification_without_city_check[OF ng ci p1 p2 ug st en] sc ci show ?thesis by simp
qed

end
